theory Spec2Isabelle
  imports Complex_Main "HOL-Library.Word"
begin

unbundle bit_operations_syntax

section \<open>JavaScript numbers\<close>

text \<open>
  The library computes on JavaScript Numbers. The special values that decide the
  control flow and the sentinel results of the library (\<open>NaN\<close>, \<open>+Infinity\<close>,
  \<open>-Infinity\<close>) are explicit constructors and follow the IEEE 754 rules. A finite
  value is an exact real: rounding to binary64, overflow of finite arithmetic to an
  infinity and the sign of zero are not represented (a division by zero divides by \<open>+0\<close>).
\<close>

datatype jsnum = NaN | Fin real | PInf | NInf

fun num_neg :: "jsnum \<Rightarrow> jsnum" where
  "num_neg NaN = NaN"
| "num_neg (Fin a) = Fin (- a)"
| "num_neg PInf = NInf"
| "num_neg NInf = PInf"

fun num_add :: "jsnum \<Rightarrow> jsnum \<Rightarrow> jsnum" where
  "num_add NaN b = NaN"
| "num_add (Fin a) NaN = NaN"
| "num_add (Fin a) (Fin b) = Fin (a + b)"
| "num_add (Fin a) PInf = PInf"
| "num_add (Fin a) NInf = NInf"
| "num_add PInf NaN = NaN"
| "num_add PInf (Fin b) = PInf"
| "num_add PInf PInf = PInf"
| "num_add PInf NInf = NaN"
| "num_add NInf NaN = NaN"
| "num_add NInf (Fin b) = NInf"
| "num_add NInf PInf = NaN"
| "num_add NInf NInf = NInf"

definition num_sub :: "jsnum \<Rightarrow> jsnum \<Rightarrow> jsnum" where
  "num_sub a b = num_add a (num_neg b)"

fun num_mul :: "jsnum \<Rightarrow> jsnum \<Rightarrow> jsnum" where
  "num_mul NaN b = NaN"
| "num_mul (Fin a) NaN = NaN"
| "num_mul (Fin a) (Fin b) = Fin (a * b)"
| "num_mul (Fin a) PInf = (if a = 0 then NaN else if 0 < a then PInf else NInf)"
| "num_mul (Fin a) NInf = (if a = 0 then NaN else if 0 < a then NInf else PInf)"
| "num_mul PInf NaN = NaN"
| "num_mul PInf (Fin b) = (if b = 0 then NaN else if 0 < b then PInf else NInf)"
| "num_mul PInf PInf = PInf"
| "num_mul PInf NInf = NInf"
| "num_mul NInf NaN = NaN"
| "num_mul NInf (Fin b) = (if b = 0 then NaN else if 0 < b then NInf else PInf)"
| "num_mul NInf PInf = NInf"
| "num_mul NInf NInf = PInf"

fun num_div :: "jsnum \<Rightarrow> jsnum \<Rightarrow> jsnum" where
  "num_div NaN b = NaN"
| "num_div (Fin a) NaN = NaN"
| "num_div (Fin a) (Fin b) =
     (if b = 0 then (if a = 0 then NaN else if 0 < a then PInf else NInf)
      else Fin (a / b))"
| "num_div (Fin a) PInf = Fin 0"
| "num_div (Fin a) NInf = Fin 0"
| "num_div PInf (Fin b) = (if 0 \<le> b then PInf else NInf)"
| "num_div PInf b = NaN"
| "num_div NInf (Fin b) = (if 0 \<le> b then NInf else PInf)"
| "num_div NInf b = NaN"

fun num_less :: "jsnum \<Rightarrow> jsnum \<Rightarrow> bool" where
  "num_less NaN b = False"
| "num_less (Fin a) (Fin b) = (a < b)"
| "num_less (Fin a) PInf = True"
| "num_less (Fin a) b = False"
| "num_less PInf b = False"
| "num_less NInf (Fin b) = True"
| "num_less NInf PInf = True"
| "num_less NInf b = False"

definition num_le :: "jsnum \<Rightarrow> jsnum \<Rightarrow> bool" where
  "num_le a b = (a \<noteq> NaN \<and> b \<noteq> NaN \<and> (a = b \<or> num_less a b))"

text \<open>\<open>Math.sqrt\<close>, \<open>Math.abs\<close>, \<open>Math.floor\<close>, and \<open>Math.pow\<close> at the literal
  exponents the library uses (2 to 6 and 16).\<close>

fun Math_sqrt :: "jsnum \<Rightarrow> jsnum" where
  "Math_sqrt NaN = NaN"
| "Math_sqrt (Fin a) = (if a < 0 then NaN else Fin (sqrt a))"
| "Math_sqrt PInf = PInf"
| "Math_sqrt NInf = NaN"

fun Math_abs :: "jsnum \<Rightarrow> jsnum" where
  "Math_abs NaN = NaN"
| "Math_abs (Fin a) = Fin \<bar>a\<bar>"
| "Math_abs PInf = PInf"
| "Math_abs NInf = PInf"

fun Math_floor :: "jsnum \<Rightarrow> jsnum" where
  "Math_floor (Fin a) = Fin (of_int \<lfloor>a\<rfloor>)"
| "Math_floor b = b"

definition Math_pow :: "jsnum \<Rightarrow> nat \<Rightarrow> jsnum" where
  "Math_pow b k =
     (if k = 0 then Fin 1
      else case b of
        NaN \<Rightarrow> NaN
      | Fin a \<Rightarrow> Fin (a ^ k)
      | PInf \<Rightarrow> PInf
      | NInf \<Rightarrow> (if even k then PInf else NInf))"

section \<open>JavaScript values\<close>

text \<open>
  The entries of a sample are primitive values: \<open>null\<close>, \<open>undefined\<close>, a Number, a
  String or a Boolean. An array is the list of its entries (no holes, no extra
  properties).
\<close>

datatype jsval = Null | Undefined | Number jsnum | Str string | Boolean bool

subsection \<open>String to Number conversion\<close>

text \<open>
  \<open>StringToNumber\<close> of ECMAScript on strings of characters with codes below 256:
  white space (the codes 9 to 13, 32 and 160) is trimmed, the empty string is \<open>0\<close>,
  then a signed decimal literal (with \<open>Infinity\<close>, a fraction and an exponent) or an
  unsigned binary, octal or hexadecimal integer literal; everything else is \<open>NaN\<close>.
  As for all finite values, the value of a literal is exact: a literal beyond the
  range of binary64 stays finite.
\<close>

definition is_space :: "char \<Rightarrow> bool" where
  "is_space c = (of_char c \<in> {9, 10, 11, 12, 13, 32, 160 :: nat})"

definition trim :: "string \<Rightarrow> string" where
  "trim s = rev (dropWhile is_space (rev (dropWhile is_space s)))"

definition digit_of :: "nat \<Rightarrow> char \<Rightarrow> nat option" where
  "digit_of radix c =
     (let k = (of_char c :: nat);
          d = (if 48 \<le> k \<and> k \<le> 57 then Some (k - 48)
               else if 97 \<le> k \<and> k \<le> 102 then Some (k - 87)
               else if 65 \<le> k \<and> k \<le> 70 then Some (k - 55)
               else None)
      in case d of
           None \<Rightarrow> None
         | Some v \<Rightarrow> (if v < radix then Some v else None))"

fun digits_value :: "nat \<Rightarrow> string \<Rightarrow> nat \<Rightarrow> nat option" where
  "digits_value radix [] acc = Some acc"
| "digits_value radix (c # cs) acc =
     (case digit_of radix c of
        None \<Rightarrow> None
      | Some d \<Rightarrow> digits_value radix cs (acc * radix + d))"

definition exponent_part :: "string \<Rightarrow> int option" where
  "exponent_part s =
     (case s of
        [] \<Rightarrow> None
      | c # cs \<Rightarrow>
          (if c = CHR ''-'' then
             (if cs = [] then None else map_option (\<lambda>n. - int n) (digits_value 10 cs 0))
           else if c = CHR ''+'' then
             (if cs = [] then None else map_option int (digits_value 10 cs 0))
           else map_option int (digits_value 10 s 0)))"

definition mantissa_part :: "string \<Rightarrow> real option" where
  "mantissa_part s =
     (let ip = takeWhile (\<lambda>c. c \<noteq> CHR ''.'') s;
          r = dropWhile (\<lambda>c. c \<noteq> CHR ''.'') s;
          fp = (if r = [] then [] else tl r)
      in if ip = [] \<and> fp = [] then None
         else case (digits_value 10 ip 0, digits_value 10 fp 0) of
                (Some i, Some f) \<Rightarrow> Some (real i + real f / 10 ^ length fp)
              | _ \<Rightarrow> None)"

definition unsigned_decimal :: "string \<Rightarrow> jsnum" where
  "unsigned_decimal s =
     (if s = ''Infinity'' then PInf
      else
        let isE = (\<lambda>c. c = CHR ''e'' \<or> c = CHR ''E'');
            m = takeWhile (\<lambda>c. \<not> isE c) s;
            r = dropWhile (\<lambda>c. \<not> isE c) s
        in case mantissa_part m of
             None \<Rightarrow> NaN
           | Some v \<Rightarrow>
               (if r = [] then Fin v
                else case exponent_part (tl r) of
                       None \<Rightarrow> NaN
                     | Some e \<Rightarrow> Fin (v * 10 powi e)))"

definition non_decimal :: "nat \<Rightarrow> string \<Rightarrow> jsnum" where
  "non_decimal radix ds =
     (if ds = [] then NaN
      else case digits_value radix ds 0 of None \<Rightarrow> NaN | Some n \<Rightarrow> Fin (real n))"

definition StringToNumber :: "string \<Rightarrow> jsnum" where
  "StringToNumber str =
     (let s = trim str in
      if s = [] then Fin 0
      else if take 2 s = ''0x'' \<or> take 2 s = ''0X'' then non_decimal 16 (drop 2 s)
      else if take 2 s = ''0o'' \<or> take 2 s = ''0O'' then non_decimal 8 (drop 2 s)
      else if take 2 s = ''0b'' \<or> take 2 s = ''0B'' then non_decimal 2 (drop 2 s)
      else if hd s = CHR ''-'' then num_neg (unsigned_decimal (tl s))
      else if hd s = CHR ''+'' then unsigned_decimal (tl s)
      else unsigned_decimal s)"

subsection \<open>Coercions\<close>

fun ToNumber :: "jsval \<Rightarrow> jsnum" where
  "ToNumber Null = Fin 0"
| "ToNumber Undefined = NaN"
| "ToNumber (Number n) = n"
| "ToNumber (Str s) = StringToNumber s"
| "ToNumber (Boolean b) = (if b then Fin 1 else Fin 0)"

text \<open>The global \<open>isNaN\<close>: its argument is converted with \<open>ToNumber\<close> first.\<close>

definition isNaN :: "jsval \<Rightarrow> bool" where
  "isNaN v = (ToNumber v = NaN)"

text \<open>An array index read \<open>x[i]\<close> with a Number \<open>i\<close>: \<open>undefined\<close> unless \<open>i\<close> is an
  integer within the array.\<close>

definition js_index :: "jsval list \<Rightarrow> jsnum \<Rightarrow> jsval" where
  "js_index xs i =
     (case i of
        Fin r \<Rightarrow>
          (if r = of_int \<lfloor>r\<rfloor> \<and> 0 \<le> r \<and> nat \<lfloor>r\<rfloor> < length xs then xs ! nat \<lfloor>r\<rfloor>
           else Undefined)
      | _ \<Rightarrow> Undefined)"

text \<open>\<open>reduce(function(accumulator, currentValue) { return accumulator + currentValue; }, 0)\<close>
  on an array of Numbers: the sum from the left.\<close>

definition reduce_add :: "jsnum list \<Rightarrow> jsnum" where
  "reduce_add xs = foldl num_add (Fin 0) xs"

section \<open>The library\<close>

subsection \<open>Numeric coercion layer\<close>

definition isNumber :: "jsval \<Rightarrow> bool" where
  "isNumber x = (\<not> isNaN x)"

definition makeNumeric :: "jsval \<Rightarrow> jsval" where
  "makeNumeric x =
     (if x = Null then Null
      else if isNumber x then Number (ToNumber x)
      else Null)"

text \<open>\<open>countNull\<close>: the condition \<open>x[i] === null | x[i] === 'null'\<close> is a bitwise OR of the
  two comparisons, each converted to a 32-bit integer; the \<open>if\<close> takes it when the
  result is not zero.\<close>

definition countNull_test :: "jsval \<Rightarrow> 32 word" where
  "countNull_test v = (if v = Null then 1 else 0) OR (if v = Str ''null'' then 1 else 0)"

fun countNull_loop :: "jsval list \<Rightarrow> nat \<Rightarrow> nat" where
  "countNull_loop [] nullCount = nullCount"
| "countNull_loop (v # vs) nullCount =
     countNull_loop vs (if countNull_test v \<noteq> 0 then nullCount + 1 else nullCount)"

definition countNull :: "jsval list \<Rightarrow> nat" where
  "countNull x = countNull_loop x 0"

subsection \<open>Descriptive layer\<close>

text \<open>The loop \<open>for (i = 0; i < n; i++) sum += +x[i]\<close> over the entries from the left
  (\<open>acc\<close> is the source's \<open>sum\<close>).\<close>

fun mean_loop :: "jsval list \<Rightarrow> jsnum \<Rightarrow> jsnum" where
  "mean_loop [] acc = acc"
| "mean_loop (v # vs) acc = mean_loop vs (num_add acc (ToNumber v))"

definition mean :: "jsval list \<Rightarrow> jsnum" where
  "mean x0 =
     (let x = map makeNumeric x0;
          n = length x;
          acc = mean_loop x (Fin 0);
          m = num_div acc (Fin (real n))
      in m)"

text \<open>\<open>variance\<close> reads the entries as they are (\<open>x[i] - m\<close> converts with \<open>ToNumber\<close>).\<close>

fun variance_loop :: "jsval list \<Rightarrow> jsnum \<Rightarrow> jsnum \<Rightarrow> jsnum" where
  "variance_loop [] m diff = diff"
| "variance_loop (v # vs) m diff =
     variance_loop vs m (num_add diff (Math_pow (num_sub (ToNumber v) m) 2))"

definition variance :: "jsval list \<Rightarrow> jsnum" where
  "variance x =
     (let n = length x;
          m = mean x;
          diff = variance_loop x m (Fin 0);
          v = num_div diff (Fin (real n))
      in v)"

subsection \<open>Sorting and quantiles\<close>

text \<open>
  \<open>Array.prototype.sort\<close> with a comparison function: entries that are \<open>undefined\<close> go
  to the end without being compared; the others are ordered by the sign of
  \<open>comparefn(a, b)\<close> (\<open>b\<close> before \<open>a\<close> when it is greater than zero; \<open>NaN\<close> counts as zero),
  and the sort is stable. It is written here as an insertion sort from the right.
\<close>

fun insert_by :: "(jsval \<Rightarrow> jsval \<Rightarrow> jsnum) \<Rightarrow> jsval \<Rightarrow> jsval list \<Rightarrow> jsval list" where
  "insert_by comparefn a [] = [a]"
| "insert_by comparefn a (b # bs) =
     (if num_less (Fin 0) (comparefn a b) then b # insert_by comparefn a bs
      else a # b # bs)"

definition js_sort :: "(jsval \<Rightarrow> jsval \<Rightarrow> jsnum) \<Rightarrow> jsval list \<Rightarrow> jsval list" where
  "js_sort comparefn xs =
     foldr (insert_by comparefn) (filter (\<lambda>v. v \<noteq> Undefined) xs) []
       @ filter (\<lambda>v. v = Undefined) xs"

text \<open>The comparison function of \<open>quantile\<close>: \<open>function(a,b) { return a - b; }\<close>.\<close>

definition a_minus_b :: "jsval \<Rightarrow> jsval \<Rightarrow> jsnum" where
  "a_minus_b a b = num_sub (ToNumber a) (ToNumber b)"

text \<open>
  The statements of \<open>quantile\<close> after the sort, on the sorted array \<open>x\<close>. The entries of
  \<open>x\<close> come from \<open>makeNumeric\<close>, so each is \<open>null\<close> or a Number and the \<open>+\<close> of the
  interpolation is the addition of Numbers; a read past the end is \<open>undefined\<close>.
\<close>

definition quantile_sorted :: "jsval list \<Rightarrow> jsnum \<Rightarrow> jsval" where
  "quantile_sorted x q =
     (if length x = 0 then Number (Fin 0)
      else
        let position = num_mul (Fin (real (length x) - 1)) q;
            base = Math_floor position;
            rest = num_sub position base
        in if js_index x base \<noteq> Undefined then
             Number (num_add (ToNumber (js_index x base))
                       (num_mul rest
                          (num_sub (ToNumber (js_index x (num_add base (Fin 1))))
                                   (ToNumber (js_index x base)))))
           else js_index x base)"

definition quantile :: "jsval list \<Rightarrow> jsnum \<Rightarrow> jsval" where
  "quantile x0 q =
     (let x = map makeNumeric x0;
          x' = js_sort a_minus_b x
      in quantile_sorted x' q)"

definition median :: "jsval list \<Rightarrow> jsval" where
  "median x = quantile x (Fin (1 / 2))"

subsection \<open>Arrays as objects: who sees the sort\<close>

text \<open>
  An array is an object, and \<open>sort\<close> changes the object it is called on. The store
  holds the arrays, a reference is an index into it. \<open>x.map(f)\<close> allocates a new
  array and returns its reference; \<open>x.sort(comparefn)\<close> overwrites the array behind
  \<open>x\<close> and returns \<open>x\<close>.
\<close>

type_synonym ref = nat
type_synonym store = "jsval list list"

definition array_map :: "(jsval \<Rightarrow> jsval) \<Rightarrow> store \<Rightarrow> ref \<Rightarrow> ref \<times> store" where
  "array_map f h x = (length h, h @ [map f (h ! x)])"

definition array_sort :: "(jsval \<Rightarrow> jsval \<Rightarrow> jsnum) \<Rightarrow> store \<Rightarrow> ref \<Rightarrow> ref \<times> store" where
  "array_sort comparefn h x = (x, h[x := js_sort comparefn (h ! x)])"

text \<open>\<open>quantile\<close> with the store: the parameter \<open>x\<close> is a reference; the two assignments
  \<open>x = x.map(makeNumeric)\<close> and \<open>x = x.sort(...)\<close> rebind the local variable.\<close>

definition quantile_st :: "store \<Rightarrow> ref \<Rightarrow> jsnum \<Rightarrow> jsval \<times> store" where
  "quantile_st h x0 q =
     (let (x1, h1) = array_map makeNumeric h x0;
          (x2, h2) = array_sort a_minus_b h1 x1
      in (quantile_sorted (h2 ! x2) q, h2))"

definition median_st :: "store \<Rightarrow> ref \<Rightarrow> jsval \<times> store" where
  "median_st h x = quantile_st h x (Fin (1 / 2))"

text \<open>\<open>Math.min.apply(Math, x)\<close> and \<open>Math.max.apply(Math, x)\<close>: every argument is converted
  with \<open>ToNumber\<close>; the result is \<open>NaN\<close> if one of them is, and \<open>+Infinity\<close>
  (\<open>-Infinity\<close> for \<open>max\<close>) without arguments.\<close>

definition Math_min :: "jsval list \<Rightarrow> jsnum" where
  "Math_min x =
     (let ns = map ToNumber x
      in if NaN \<in> set ns then NaN
         else foldl (\<lambda>a b. if num_less b a then b else a) PInf ns)"

definition Math_max :: "jsval list \<Rightarrow> jsnum" where
  "Math_max x =
     (let ns = map ToNumber x
      in if NaN \<in> set ns then NaN
         else foldl (\<lambda>a b. if num_less a b then b else a) NInf ns)"

record summary_result =
  minimum :: jsnum
  maximum :: jsnum
  mean_field :: jsnum
  median_field :: jsval
  null_field :: nat
  quantile25 :: "jsval option"
  quantile75 :: "jsval option"

definition summary_st :: "store \<Rightarrow> ref \<Rightarrow> bool \<Rightarrow> summary_result \<times> store" where
  "summary_st h x addQuantile =
     (let (med, h1) = median_st h x;
          result = \<lparr> minimum = Math_min (h ! x),
                     maximum = Math_max (h ! x),
                     mean_field = mean (h ! x),
                     median_field = med,
                     null_field = countNull (h1 ! x),
                     quantile25 = None,
                     quantile75 = None \<rparr>
      in if addQuantile then
           let (q25, h2) = quantile_st h1 x (Fin (1 / 4));
               (q75, h3) = quantile_st h2 x (Fin (3 / 4))
           in (result \<lparr> quantile25 := Some q25, quantile75 := Some q75 \<rparr>, h3)
         else (result, h1))"

subsection \<open>Distribution approximation layer\<close>

text \<open>The coefficients \<open>a1\<close> to \<open>a6\<close>, and the last statement that \<open>tDistribution\<close> and
  \<open>fDistribution\<close> share word for word:
  \<open>p = 2 * (1 / (2 * Math.pow(1 + a1 * x + ... + a6 * Math.pow(x, 6), 16)))\<close>.\<close>

definition a1 :: jsnum where "a1 = Fin (49867347 / 10 ^ 9)"
definition a2 :: jsnum where "a2 = Fin (211410061 / 10 ^ 10)"
definition a3 :: jsnum where "a3 = Fin (32776263 / 10 ^ 10)"
definition a4 :: jsnum where "a4 = Fin (380036 / 10 ^ 10)"
definition a5 :: jsnum where "a5 = Fin (488906 / 10 ^ 10)"
definition a6 :: jsnum where "a6 = Fin (5383 / 10 ^ 9)"

definition poly_p :: "jsnum \<Rightarrow> jsnum" where
  "poly_p x =
     num_mul (Fin 2) (num_div (Fin 1) (num_mul (Fin 2) (Math_pow
       (num_add (num_add (num_add (num_add (num_add (num_add (Fin 1)
          (num_mul a1 x))
          (num_mul a2 (Math_pow x 2)))
          (num_mul a3 (Math_pow x 3)))
          (num_mul a4 (Math_pow x 4)))
          (num_mul a5 (Math_pow x 5)))
          (num_mul a6 (Math_pow x 6)))
       16)))"

definition tDistribution :: "jsnum \<Rightarrow> jsnum \<Rightarrow> jsnum" where
  "tDistribution df t =
     (let x = num_div
                (num_mul t (num_sub (Fin 1) (num_div (Fin 1) (num_mul (Fin 4) df))))
                (Math_sqrt (num_add (Fin 1) (num_div (Math_pow t 2) (num_mul (Fin 2) df))));
          p = poly_p x
      in p)"

definition fDistribution :: "jsnum \<Rightarrow> jsnum \<Rightarrow> jsnum \<Rightarrow> jsnum" where
  "fDistribution f df1 df2 =
     (let x = num_div
                (num_sub f (num_div df2 (num_sub df2 (Fin 2))))
                (num_mul (num_div df2 (num_sub df2 (Fin 2)))
                   (Math_sqrt (num_div
                      (num_mul (Fin 2) (num_sub (num_add df1 df2) (Fin 2)))
                      (num_mul df1 (num_sub df2 (Fin 4))))));
          p = poly_p x
      in p)"

subsection \<open>Inferential layer\<close>

definition degreesOfFreedom :: "jsval list \<Rightarrow> jsval list \<Rightarrow> jsnum" where
  "degreesOfFreedom x y =
     (let nx = Fin (real (length x));
          ny = Fin (real (length y));
          xVar = variance x;
          yVar = variance y;
          numerator = Math_pow (num_add (num_div xVar nx) (num_div yVar ny)) 2;
          denominator =
            num_add (num_div (Math_pow (num_div xVar nx) 2) (num_sub nx (Fin 1)))
                    (num_div (Math_pow (num_div yVar ny) 2) (num_sub ny (Fin 1)));
          df = num_div numerator denominator
      in df)"

definition tTest :: "jsval list \<Rightarrow> jsval list \<Rightarrow> jsnum" where
  "tTest x0 y0 =
     (let x = filter (\<lambda>a. a \<noteq> Null \<and> a \<noteq> Undefined) x0;
          y = filter (\<lambda>a. a \<noteq> Null \<and> a \<noteq> Undefined) y0;
          nx = length x;
          ny = length y
      in if nx \<ge> 3 \<and> ny \<ge> 3 then
           let xMean = mean x;
               yMean = mean y;
               xVar = variance x;
               yVar = variance y;
               t = num_div (num_sub xMean yMean)
                     (Math_sqrt (num_add (num_div xVar (Fin (real nx)))
                                         (num_div yVar (Fin (real ny)))));
               t' = Math_abs t;
               df = degreesOfFreedom x y;
               answer = tDistribution df t'
           in answer
         else NaN)"

text \<open>\<open>pearsonCorrelation\<close> returns the string \<open>'failed'\<close> or the object \<open>{r: r, p: p}\<close>.\<close>

datatype pearson_result = StrResult string | RP (r_of: jsnum) (p_of: jsnum)

text \<open>The first loop, \<open>for (c in y)\<close>, visits the indices of \<open>y\<close> in ascending order and
  runs only when both arrays have the same length: it keeps the pairs
  \<open>(x[c], y[c])\<close> where neither entry is \<open>NaN\<close> under \<open>isNaN\<close>, and pushes \<open>+x[c]\<close> and
  \<open>+y[c]\<close>.\<close>

fun pearson_filter :: "jsval list \<Rightarrow> jsval list \<Rightarrow> jsnum list \<times> jsnum list
    \<Rightarrow> jsnum list \<times> jsnum list" where
  "pearson_filter (xv # xs) (yv # ys) (newX, newY) =
     pearson_filter xs ys
       (if \<not> isNaN yv \<and> \<not> isNaN xv then (newX @ [ToNumber xv], newY @ [ToNumber yv])
        else (newX, newY))"
| "pearson_filter xs ys acc = acc"

text \<open>The second loop carries the five running sums.\<close>

record pearson_sums =
  xSum :: jsnum
  ySum :: jsnum
  xSquaredSum :: jsnum
  ySquaredSum :: jsnum
  xyProd :: jsnum

fun pearson_loop :: "jsnum list \<Rightarrow> jsnum list \<Rightarrow> pearson_sums \<Rightarrow> pearson_sums" where
  "pearson_loop (a # newX) (b # newY) s =
     pearson_loop newX newY
       \<lparr> xSum = num_add (xSum s) a,
         ySum = num_add (ySum s) b,
         xSquaredSum = num_add (xSquaredSum s) (Math_pow a 2),
         ySquaredSum = num_add (ySquaredSum s) (Math_pow b 2),
         xyProd = num_add (xyProd s) (num_mul a b) \<rparr>"
| "pearson_loop newX newY s = s"

definition pearsonCorrelation :: "jsval list \<Rightarrow> jsval list \<Rightarrow> pearson_result" where
  "pearsonCorrelation x y =
     (if length x \<noteq> length y then StrResult ''failed''
      else
        let (newX, newY) = pearson_filter x y ([], [])
        in if length newY > 10 then
             let n = Fin (real (length newY));
                 s = pearson_loop newX newY
                       \<lparr> xSum = Fin 0, ySum = Fin 0, xSquaredSum = Fin 0,
                         ySquaredSum = Fin 0, xyProd = Fin 0 \<rparr>;
                 numerator = num_sub (xyProd s) (num_div (num_mul (xSum s) (ySum s)) n);
                 denominator =
                   num_mul
                     (Math_sqrt (num_sub (xSquaredSum s) (num_div (Math_pow (xSum s) 2) n)))
                     (Math_sqrt (num_sub (ySquaredSum s) (num_div (Math_pow (ySum s) 2) n)));
                 r = num_div numerator denominator;
                 df = Fin (real (length newY) - 2);
                 t = Math_abs (num_div r
                       (Math_sqrt (num_div (num_sub (Fin 1) (Math_pow r 2)) df)));
                 p = tDistribution df t
             in RP r p
           else StrResult ''failed'')"

text \<open>ANOVA. \<open>sumSquaredErrors\<close> squares \<open>x - means[i]\<close> for each entry of group \<open>i\<close>, where
  \<open>means[i]\<close> is \<open>mean(data[i])\<close>.\<close>

definition sumSquaredErrors :: "jsval list list \<Rightarrow> jsnum" where
  "sumSquaredErrors data =
     (let se = map (\<lambda>d. reduce_add (map (\<lambda>x. Math_pow (num_sub (ToNumber x) (mean d)) 2) d))
                 data;
          sse = reduce_add se
      in sse)"

definition sumSquaredTreatment :: "jsnum \<Rightarrow> jsnum list \<Rightarrow> jsnum" where
  "sumSquaredTreatment overallMean means =
     (let sst = foldl (\<lambda>accumulator currentValue.
                    num_add accumulator (Math_pow (num_sub currentValue overallMean) 2))
                  (Fin 0) means;
          sst' = num_mul sst (Fin (real (length means) - 1))
      in sst')"

definition fStatistic :: "jsval list list \<Rightarrow> jsnum \<Rightarrow> jsnum \<Rightarrow> jsnum" where
  "fStatistic x m n =
     (let means = map mean x;
          overallMean = mean (map Number means);
          sse = sumSquaredErrors x;
          sst = sumSquaredTreatment overallMean means;
          mse = num_div sse (num_sub n m);
          mst = num_div sst (num_sub m (Fin 1));
          f = num_div mst mse
      in f)"

text \<open>The argument of \<open>anova\<close> is any value: something that is not an array, or an array
  whose elements are arrays (samples) or not.\<close>

datatype group_elem = Scalar jsval | Sample "jsval list"

datatype anova_arg = NonArray jsval | Groups "group_elem list"

fun isArray_elem :: "group_elem \<Rightarrow> bool" where
  "isArray_elem (Scalar v) = False"
| "isArray_elem (Sample xs) = True"

fun sample_of :: "group_elem \<Rightarrow> jsval list" where
  "sample_of (Sample xs) = xs"
| "sample_of (Scalar v) = []"

fun anova :: "anova_arg \<Rightarrow> jsval" where
  "anova (NonArray v) = Boolean False"
| "anova (Groups es) =
     (let subArrayTest = map isArray_elem es
      in if \<not> list_all (\<lambda>b. b) subArrayTest then Boolean False
         else
           let x = map sample_of es;
               m = Fin (real (length x));
               n = foldl (\<lambda>accumulator currentValue.
                     num_add accumulator (Fin (real (length currentValue)))) (Fin 0) x;
               df1 = num_sub m (Fin 1);
               df2 = num_sub n (Fin 1);
               f = fStatistic x m n;
               p = fDistribution f df1 df2
           in Number p)"

section \<open>Notions used to state the properties\<close>

text \<open>What an entry contributes to the sum of \<open>mean\<close>: \<open>null\<close> and every entry that
  \<open>isNaN\<close> rejects count as \<open>0\<close>, the others as their numeric value.\<close>

definition coerced :: "jsval \<Rightarrow> jsnum" where
  "coerced v = (if v = Null \<or> isNaN v then Fin 0 else ToNumber v)"

text \<open>An entry that \<open>mean\<close> counts as \<open>0\<close>, replaced by the number \<open>0\<close>.\<close>

definition missing_as_zero :: "jsval \<Rightarrow> jsval" where
  "missing_as_zero v = (if v = Null \<or> isNaN v then Number (Fin 0) else v)"

text \<open>The pairs that survive the filter of \<open>pearsonCorrelation\<close>, as Numbers, and the
  sum-of-products form of the correlation coefficient and its significance.\<close>

definition valid_pairs :: "jsval list \<Rightarrow> jsval list \<Rightarrow> (jsnum \<times> jsnum) list" where
  "valid_pairs x y =
     map (\<lambda>(a, b). (ToNumber a, ToNumber b))
       (filter (\<lambda>(a, b). \<not> isNaN b \<and> \<not> isNaN a) (zip x y))"

definition pearson_r :: "(jsnum \<times> jsnum) list \<Rightarrow> jsnum" where
  "pearson_r ps =
     (let n = Fin (real (length ps));
          sx = reduce_add (map fst ps);
          sy = reduce_add (map snd ps);
          sxx = reduce_add (map (\<lambda>(a, b). Math_pow a 2) ps);
          syy = reduce_add (map (\<lambda>(a, b). Math_pow b 2) ps);
          sxy = reduce_add (map (\<lambda>(a, b). num_mul a b) ps)
      in num_div (num_sub sxy (num_div (num_mul sx sy) n))
           (num_mul (Math_sqrt (num_sub sxx (num_div (Math_pow sx 2) n)))
                    (Math_sqrt (num_sub syy (num_div (Math_pow sy 2) n)))))"

definition pearson_p :: "(jsnum \<times> jsnum) list \<Rightarrow> jsnum" where
  "pearson_p ps =
     (let r = pearson_r ps;
          df = Fin (real (length ps) - 2)
      in tDistribution df
           (Math_abs (num_div r (Math_sqrt (num_div (num_sub (Fin 1) (Math_pow r 2)) df)))))"

definition null_as_zero :: "jsval \<Rightarrow> jsval" where
  "null_as_zero v = (if v = Null then Number (Fin 0) else v)"

text \<open>The entries \<open>tTest\<close> keeps, and Welch's statistic on two samples.\<close>

definition present :: "jsval list \<Rightarrow> jsval list" where
  "present x = filter (\<lambda>a. a \<noteq> Null \<and> a \<noteq> Undefined) x"

definition welch_t :: "jsval list \<Rightarrow> jsval list \<Rightarrow> jsnum" where
  "welch_t x y =
     num_div (num_sub (mean x) (mean y))
       (Math_sqrt (num_add (num_div (variance x) (Fin (real (length x))))
                           (num_div (variance y) (Fin (real (length y))))))"

text \<open>Ascending numeric order of an array, by the numeric values of its entries.\<close>

fun ascending :: "jsval list \<Rightarrow> bool" where
  "ascending (a # b # xs) = (num_le (ToNumber a) (ToNumber b) \<and> ascending (b # xs))"
| "ascending xs = True"

text \<open>Ten numeric entries, for the examples around the threshold of
  \<open>pearsonCorrelation\<close>.\<close>

definition ten :: "jsval list" where
  "ten = [Number (Fin 1), Number (Fin 2), Number (Fin 3), Number (Fin 4), Number (Fin 5),
          Number (Fin 6), Number (Fin 7), Number (Fin 8), Number (Fin 9), Number (Fin 10)]"


text \<open>An entry the comparison function of \<open>quantile\<close> orders: not \<open>undefined\<close>, and with
  a numeric value other than \<open>NaN\<close>.\<close>

definition sortable :: "jsval \<Rightarrow> bool" where
  "sortable v = (v \<noteq> Undefined \<and> ToNumber v \<noteq> NaN)"

section \<open>Arithmetic with \<open>NaN\<close>\<close>

lemma num_add_NaN_right [simp]: "num_add a NaN = NaN"
  by (cases a) simp_all

lemma num_mul_NaN_right [simp]: "num_mul a NaN = NaN"
  by (cases a) simp_all

lemma num_div_NaN_right [simp]: "num_div a NaN = NaN"
  by (cases a) simp_all

lemma num_sub_NaN [simp]: "num_sub a NaN = NaN" "num_sub NaN b = NaN"
  by (simp_all add: num_sub_def)

lemma Math_pow_NaN [simp]: "0 < k \<Longrightarrow> Math_pow NaN k = NaN"
  by (simp add: Math_pow_def)

lemma poly_p_NaN [simp]: "poly_p NaN = NaN"
  by (simp add: poly_p_def)

text \<open>The definitions to unfold when a function is evaluated on a concrete array.\<close>

lemmas coercion_defs = makeNumeric_def isNumber_def isNaN_def

lemmas quantile_defs = quantile_def quantile_sorted_def js_sort_def a_minus_b_def js_index_def
  num_sub_def

lemmas anova_defs = fStatistic_def mean_def sumSquaredErrors_def sumSquaredTreatment_def
  reduce_add_def fDistribution_def Let_def num_sub_def Math_pow_def

section \<open>\<open>countNull\<close>\<close>

lemma countNull_test_nonzero:
  "(countNull_test v \<noteq> 0) = (v = Null \<or> v = Str ''null'')"
  by (simp add: countNull_test_def)

lemma countNull_loop_count:
  "countNull_loop xs k = k + length (filter (\<lambda>e. e = Null \<or> e = Str ''null'') xs)"
  by (induction xs arbitrary: k) (simp_all add: countNull_test_nonzero)

text \<open>
  C8. \<open>countNull(x)\<close> is the number of entries that are \<open>null\<close> or the string
  \<open>"null"\<close>: the bitwise OR of the two comparisons is non-zero exactly when one of
  them holds. In particular \<open>countNull([1, null, 3, "null"])\<close> is 2.
\<close>

theorem countNull_counts_null_and_null_string:
  "countNull x = length (filter (\<lambda>e. e = Null \<or> e = Str ''null'') x)
   \<and> countNull [Number (Fin 1), Null, Number (Fin 3), Str ''null''] = 2"
  by (simp add: countNull_def countNull_loop_count)

theorem countNull_counts_null_and_null_string_witness:
  "countNull [Str ''null'', Str ''nul'', Undefined, Null, Null, Boolean False] = 3"
  using countNull_counts_null_and_null_string
    [of "[Str ''null'', Str ''nul'', Undefined, Null, Null, Boolean False]"]
  by simp

section \<open>\<open>mean\<close>\<close>

lemma mean_loop_foldl: "mean_loop xs acc = foldl num_add acc (map ToNumber xs)"
  by (induction xs arbitrary: acc) simp_all

lemma ToNumber_makeNumeric: "ToNumber (makeNumeric v) = coerced v"
  by (simp add: makeNumeric_def isNumber_def coerced_def)

lemma makeNumeric_cases:
  "makeNumeric v = Null \<or> (\<exists>n. n \<noteq> NaN \<and> makeNumeric v = Number n)"
  by (simp add: makeNumeric_def isNumber_def isNaN_def)

lemma mean_closed_form:
  "mean x = num_div (reduce_add (map coerced x)) (Fin (real (length x)))"
  by (simp add: mean_def mean_loop_foldl reduce_add_def comp_def ToNumber_makeNumeric)

lemma coerced_missing_as_zero: "coerced (missing_as_zero v) = coerced v"
  by (simp add: missing_as_zero_def coerced_def isNaN_def)

lemma mean_missing_as_zero: "mean (map missing_as_zero x) = mean x"
  by (simp add: mean_closed_form comp_def coerced_missing_as_zero)

text \<open>
  C4 (amended). \<open>mean(x)\<close> is the sum of the coerced entries divided by \<open>x.length\<close>,
  where \<open>null\<close> and every non-numeric entry are coerced to \<open>0\<close> and still count in
  the divisor: \<open>mean(x)\<close> is the mean of \<open>x\<close> with each such entry replaced by the
  number \<open>0\<close>, so these entries do not make the result \<open>NaN\<close>. \<open>mean([1,2,3])\<close> is
  2 and \<open>mean([])\<close> is \<open>NaN\<close>.
\<close>

theorem mean_is_coerced_sum_over_length:
  "mean x = num_div (reduce_add (map coerced x)) (Fin (real (length x)))
   \<and> mean x = mean (map missing_as_zero x)
   \<and> mean [Number (Fin 1), Number (Fin 2), Number (Fin 3)] = Fin 2
   \<and> mean [] = NaN"
proof -
  have "mean [Number (Fin 1), Number (Fin 2), Number (Fin 3)] = Fin 2"
    by (simp add: mean_closed_form reduce_add_def coerced_def isNaN_def)
  moreover have "mean [] = NaN"
    by (simp add: mean_closed_form reduce_add_def)
  ultimately show ?thesis
    using mean_closed_form[of x] mean_missing_as_zero[of x] by simp
qed

theorem mean_is_coerced_sum_over_length_witness:
  "mean [Number (Fin 1), Null, Str ''abc'', Undefined, Number (Fin 3)]
     = mean [Number (Fin 1), Number (Fin 0), Number (Fin 0), Number (Fin 0), Number (Fin 3)]"
proof -
  have "map missing_as_zero [Number (Fin 1), Null, Str ''abc'', Undefined, Number (Fin 3)]
      = [Number (Fin 1), Number (Fin 0), Number (Fin 0), Number (Fin 0), Number (Fin 3)]"
    by (simp add: missing_as_zero_def isNaN_def StringToNumber_def trim_def is_space_def
        unsigned_decimal_def mantissa_part_def digit_of_def)
  moreover have "mean [Number (Fin 1), Null, Str ''abc'', Undefined, Number (Fin 3)]
      = mean (map missing_as_zero [Number (Fin 1), Null, Str ''abc'', Undefined, Number (Fin 3)])"
    using mean_is_coerced_sum_over_length
      [of "[Number (Fin 1), Null, Str ''abc'', Undefined, Number (Fin 3)]"]
    by (rule conjunct1[OF conjunct2])
  ultimately show ?thesis by (simp only:)
qed

theorem mean_null_not_NaN_counterexample:
  "mean [Number (Fin 1), Null, Number (Fin 3)] = Fin (4 / 3)
   \<and> mean [Number (Fin 1), Str ''abc'', Number (Fin 3)] = Fin (4 / 3)"
  by (simp add: mean_def makeNumeric_def isNumber_def isNaN_def StringToNumber_def
      trim_def is_space_def unsigned_decimal_def mantissa_part_def digit_of_def)

section \<open>\<open>anova\<close>: the validation of the argument\<close>

text \<open>
  C7. \<open>anova(x)\<close> returns \<open>false\<close> when \<open>x\<close> is not an array, and for an array \<open>x\<close>
  it returns \<open>false\<close> exactly when some element of \<open>x\<close> is not an array; so it never
  returns \<open>false\<close> for an array of arrays. In particular \<open>anova([1,2,3])\<close> is \<open>false\<close>.
\<close>

theorem anova_false_iff_not_array_of_arrays:
  "anova (NonArray v) = Boolean False
   \<and> (anova (Groups es) = Boolean False) = (\<not> list_all isArray_elem es)
   \<and> anova (Groups [Scalar (Number (Fin 1)), Scalar (Number (Fin 2)), Scalar (Number (Fin 3))])
       = Boolean False"
  by (simp add: Let_def list.pred_map comp_def)

theorem anova_false_iff_not_array_of_arrays_witness:
  "anova (Groups [Sample [Number (Fin 1)], Scalar (Number (Fin 2))]) = Boolean False
   \<and> anova (Groups [Sample [Number (Fin 1)], Sample []]) \<noteq> Boolean False
   \<and> anova (NonArray (Str ''abc'')) = Boolean False"
  using anova_false_iff_not_array_of_arrays
    [of "Str ''abc''" "[Sample [Number (Fin 1)], Scalar (Number (Fin 2))]"]
    anova_false_iff_not_array_of_arrays
    [of "Str ''abc''" "[Sample [Number (Fin 1)], Sample []]"]
  by simp

text \<open>
  C10. For the empty group set the check of the elements passes vacuously:
  \<open>anova([])\<close> is not \<open>false\<close>; it goes on with \<open>m = 0\<close> and \<open>n = 0\<close> and returns \<open>NaN\<close>.
\<close>

theorem anova_empty_is_NaN: "anova (Groups []) = Number NaN"
  by (simp add: fStatistic_def mean_def sumSquaredErrors_def sumSquaredTreatment_def
      reduce_add_def fDistribution_def Let_def num_sub_def)

section \<open>\<open>pearsonCorrelation\<close>\<close>

lemma pearson_filter_valid_pairs:
  "pearson_filter x y (ax, ay) =
     (ax @ map fst (valid_pairs x y), ay @ map snd (valid_pairs x y))"
proof (induction x arbitrary: y ax ay)
  case Nil
  then show ?case by (simp add: valid_pairs_def)
next
  case (Cons xv xs)
  show ?case
  proof (cases y)
    case Nil
    then show ?thesis by (simp add: valid_pairs_def)
  next
    case (Cons yv ys)
    have vp: "valid_pairs (xv # xs) (yv # ys) =
        (if \<not> isNaN yv \<and> \<not> isNaN xv then (ToNumber xv, ToNumber yv) # valid_pairs xs ys
         else valid_pairs xs ys)"
      by (simp add: valid_pairs_def)
    show ?thesis
      unfolding Cons vp by (simp add: Cons.IH)
  qed
qed

lemma pearson_loop_sums:
  "pearson_loop (map fst ps) (map snd ps) s =
     \<lparr> xSum = foldl num_add (xSum s) (map fst ps),
       ySum = foldl num_add (ySum s) (map snd ps),
       xSquaredSum = foldl num_add (xSquaredSum s) (map (\<lambda>(a, b). Math_pow a 2) ps),
       ySquaredSum = foldl num_add (ySquaredSum s) (map (\<lambda>(a, b). Math_pow b 2) ps),
       xyProd = foldl num_add (xyProd s) (map (\<lambda>(a, b). num_mul a b) ps) \<rparr>"
proof (induction ps arbitrary: s)
  case Nil
  then show ?case by simp
next
  case (Cons p ps)
  obtain a b where p: "p = (a, b)" by (cases p)
  show ?case by (simp add: p Cons.IH)
qed

lemma pearsonCorrelation_closed_form:
  "pearsonCorrelation x y =
     (if length x \<noteq> length y then StrResult ''failed''
      else if 10 < length (valid_pairs x y)
           then RP (pearson_r (valid_pairs x y)) (pearson_p (valid_pairs x y))
           else StrResult ''failed'')"
  by (simp add: pearsonCorrelation_def pearson_filter_valid_pairs pearson_loop_sums
      pearson_r_def pearson_p_def reduce_add_def Let_def)

text \<open>
  C6. \<open>pearsonCorrelation(x, y)\<close> returns the string \<open>'failed'\<close> exactly when the
  lengths differ or at most 10 index-aligned pairs survive the pairwise \<open>isNaN\<close>
  filter; otherwise it returns \<open>{r, p}\<close> with \<open>r\<close> the sum-of-products correlation
  coefficient of the surviving pairs and \<open>p\<close> from \<open>tDistribution\<close> with
  \<open>df\<close> the number of surviving pairs minus 2.
\<close>

theorem pearsonCorrelation_failed_iff:
  "(pearsonCorrelation x y = StrResult ''failed'')
     = (length x \<noteq> length y \<or> length (valid_pairs x y) \<le> 10)
   \<and> (length x = length y \<and> 10 < length (valid_pairs x y) \<longrightarrow>
        pearsonCorrelation x y
          = RP (pearson_r (valid_pairs x y)) (pearson_p (valid_pairs x y)))"
  by (auto simp: pearsonCorrelation_closed_form)

theorem pearsonCorrelation_failed_iff_witness:
  "pearsonCorrelation (Number (Fin 0) # ten) (Number (Fin 3) # ten)
     = RP (pearson_r (valid_pairs (Number (Fin 0) # ten) (Number (Fin 3) # ten)))
          (pearson_p (valid_pairs (Number (Fin 0) # ten) (Number (Fin 3) # ten)))
   \<and> pearsonCorrelation ten ten = StrResult ''failed''
   \<and> pearsonCorrelation (Number (Fin 0) # ten) ten = StrResult ''failed''"
  using pearsonCorrelation_failed_iff[of "Number (Fin 0) # ten" "Number (Fin 3) # ten"]
    pearsonCorrelation_failed_iff[of ten ten]
    pearsonCorrelation_failed_iff[of "Number (Fin 0) # ten" ten]
  by (simp add: valid_pairs_def ten_def isNaN_def)

section \<open>Missing values in \<open>tTest\<close> and \<open>pearsonCorrelation\<close>\<close>

lemma null_as_zero_coercions [simp]:
  "isNaN (null_as_zero v) = isNaN v" "ToNumber (null_as_zero v) = ToNumber v"
  by (simp_all add: null_as_zero_def isNaN_def)

lemma valid_pairs_null_as_zero:
  "valid_pairs (map null_as_zero x) (map null_as_zero y) = valid_pairs x y"
proof (induction x arbitrary: y)
  case Nil
  then show ?case by (simp add: valid_pairs_def)
next
  case (Cons xv xs)
  show ?case
  proof (cases y)
    case Nil
    then show ?thesis by (simp add: valid_pairs_def)
  next
    case (Cons yv ys)
    from Cons.IH[of ys] show ?thesis
      unfolding Cons by (simp add: valid_pairs_def)
  qed
qed

lemma tTest_closed_form:
  "tTest x y =
     (if 3 \<le> length (present x) \<and> 3 \<le> length (present y)
      then tDistribution (degreesOfFreedom (present x) (present y))
             (Math_abs (welch_t (present x) (present y)))
      else NaN)"
  by (simp add: tTest_def present_def welch_t_def Let_def)

lemma present_filter_null: "present (filter (\<lambda>a. a \<noteq> Null) x) = present x"
  by (induction x) (simp_all add: present_def)

lemma tTest_drops_null:
  "tTest x y = tTest (filter (\<lambda>a. a \<noteq> Null) x) (filter (\<lambda>a. a \<noteq> Null) y)"
  by (simp add: tTest_closed_form present_filter_null)

text \<open>
  C9 (amended). \<open>pearsonCorrelation\<close> does not discard a pair because an entry is
  \<open>null\<close>: \<open>isNaN(null)\<close> is false and \<open>+null\<close> is 0, so the first loop keeps a pair
  with a \<open>null\<close> entry whenever its other entry passes the filter too, and pushes 0
  for the \<open>null\<close>; the whole result is the one obtained with every \<open>null\<close> replaced by
  the number 0, so these pairs count toward the threshold and enter \<open>r\<close> and \<open>p\<close>.
  \<open>tTest\<close>, in contrast, computes on the arrays without their \<open>null\<close> entries.
\<close>

theorem pearsonCorrelation_keeps_null_as_zero:
  "\<not> isNaN Null \<and> ToNumber Null = Fin 0
   \<and> pearson_filter (Null # xs) (yv # ys) (newX, newY)
       = pearson_filter xs ys
           (if isNaN yv then (newX, newY) else (newX @ [Fin 0], newY @ [ToNumber yv]))
   \<and> pearson_filter (xv # xs) (Null # ys) (newX, newY)
       = pearson_filter xs ys
           (if isNaN xv then (newX, newY) else (newX @ [ToNumber xv], newY @ [Fin 0]))
   \<and> pearsonCorrelation x y
       = pearsonCorrelation (map null_as_zero x) (map null_as_zero y)
   \<and> tTest x y = tTest (filter (\<lambda>a. a \<noteq> Null) x) (filter (\<lambda>a. a \<noteq> Null) y)"
proof -
  have "pearsonCorrelation x y
       = pearsonCorrelation (map null_as_zero x) (map null_as_zero y)"
    by (simp add: pearsonCorrelation_closed_form valid_pairs_null_as_zero)
  then show ?thesis
    using tTest_drops_null[of x y] by (simp add: isNaN_def)
qed

theorem pearsonCorrelation_keeps_null_as_zero_witness:
  "pearsonCorrelation (Null # ten) (Number (Fin 3) # ten)
     = pearsonCorrelation (Number (Fin 0) # ten) (Number (Fin 3) # ten)
   \<and> pearsonCorrelation (Null # ten) (Number (Fin 3) # ten) \<noteq> StrResult ''failed''"
proof -
  have "pearsonCorrelation (Null # ten) (Number (Fin 3) # ten)
     = pearsonCorrelation (Number (Fin 0) # ten) (Number (Fin 3) # ten)"
    using pearsonCorrelation_keeps_null_as_zero[of "[]" Null "[]" "[]" "[]" Null "Null # ten" "Number (Fin 3) # ten"]
    by (simp add: null_as_zero_def ten_def)
  moreover have "pearsonCorrelation (Null # ten) (Number (Fin 3) # ten) \<noteq> StrResult ''failed''"
    by (simp add: pearsonCorrelation_closed_form valid_pairs_def ten_def isNaN_def)
  ultimately show ?thesis by simp
qed

theorem pearson_pair_with_null_dropped_counterexample:
  "pearson_filter [Null] [Undefined] ([], []) = ([], [])
   \<and> pearsonCorrelation (Null # ten) (Undefined # ten) = StrResult ''failed''
   \<and> pearsonCorrelation (Null # ten) (Number (Fin 3) # ten) \<noteq> StrResult ''failed''"
  by (simp add: pearsonCorrelation_closed_form valid_pairs_def ten_def isNaN_def)

section \<open>\<open>tTest\<close>\<close>

text \<open>
  C5 (amended). \<open>tTest(x, y)\<close> first removes the entries equal to \<open>null\<close> or
  \<open>undefined\<close> from each array. It returns \<open>NaN\<close> whenever fewer than 3 entries
  remain in either filtered array; otherwise it returns
  \<open>tDistribution(degreesOfFreedom(x', y'), |t|)\<close> with \<open>t\<close> Welch's statistic of the
  filtered arrays (a value that can itself be \<open>NaN\<close>).
\<close>

theorem tTest_NaN_if_fewer_than_three:
  "(length (present x) < 3 \<or> length (present y) < 3 \<longrightarrow> tTest x y = NaN)
   \<and> (3 \<le> length (present x) \<and> 3 \<le> length (present y) \<longrightarrow>
        tTest x y = tDistribution (degreesOfFreedom (present x) (present y))
                      (Math_abs (welch_t (present x) (present y))))"
  by (auto simp: tTest_closed_form)

theorem tTest_NaN_if_fewer_than_three_witness:
  "tTest [Number (Fin 1), Null, Number (Fin 2), Undefined]
         [Number (Fin 1), Number (Fin 2), Number (Fin 3)] = NaN
   \<and> tTest [Number (Fin 1), Number (Fin 2), Number (Fin 3)]
           [Number (Fin 1), Number (Fin 2), Number (Fin 3)]
       = tDistribution
           (degreesOfFreedom [Number (Fin 1), Number (Fin 2), Number (Fin 3)]
                             [Number (Fin 1), Number (Fin 2), Number (Fin 3)])
           (Math_abs (welch_t [Number (Fin 1), Number (Fin 2), Number (Fin 3)]
                              [Number (Fin 1), Number (Fin 2), Number (Fin 3)]))"
  using tTest_NaN_if_fewer_than_three
    [of "[Number (Fin 1), Null, Number (Fin 2), Undefined]"
        "[Number (Fin 1), Number (Fin 2), Number (Fin 3)]"]
    tTest_NaN_if_fewer_than_three
    [of "[Number (Fin 1), Number (Fin 2), Number (Fin 3)]"
        "[Number (Fin 1), Number (Fin 2), Number (Fin 3)]"]
  by (simp add: present_def)

theorem tTest_NaN_with_three_entries_counterexample:
  "tTest [Number (Fin 1), Number (Fin 1), Number (Fin 1)]
         [Number (Fin 1), Number (Fin 1), Number (Fin 1)] = NaN
   \<and> length (present [Number (Fin 1), Number (Fin 1), Number (Fin 1)]) = 3"
  by (simp add: tTest_def mean_def variance_def coercion_defs num_sub_def Math_pow_def
      degreesOfFreedom_def tDistribution_def present_def)

lemma tTest_identical_samples:
  "tTest [Number (Fin 1), Number (Fin 2), Number (Fin 3)]
         [Number (Fin 1), Number (Fin 2), Number (Fin 3)] = Fin 1"
  by (simp add: tTest_def mean_def variance_def coercion_defs num_sub_def Math_pow_def
      degreesOfFreedom_def tDistribution_def poly_p_def a1_def a2_def a3_def a4_def a5_def a6_def)

section \<open>\<open>anova\<close>: the range of the result\<close>












lemma fDistribution_NaN [simp]: "fDistribution NaN df1 df2 = NaN"
  by (simp add: fDistribution_def)






text \<open>
  Below \<open>df2 / (df2 - 2)\<close> the argument \<open>x\<close> of the polynomial is negative, where the
  approximation of Abramowitz and Stegun does not apply, and \<open>fDistribution\<close> can
  return more than 1, which is no p value: two identical groups give \<open>f = 0\<close>,
  \<open>x = -1/2\<close> and a result above 1.
\<close>

lemma poly_p_minus_half: "\<exists>r. poly_p (Fin (- 1 / 2)) = Fin r \<and> 1 < r"
proof -
  define c :: real where "c = 1 + 49867347 / 10 ^ 9 * (- 1 / 2) + 211410061 / 10 ^ 10 * (- 1 / 2)\<^sup>2
     + 32776263 / 10 ^ 10 * (- 1 / 2) ^ 3 + 380036 / 10 ^ 10 * (- 1 / 2) ^ 4
     + 488906 / 10 ^ 10 * (- 1 / 2) ^ 5 + 5383 / 10 ^ 9 * (- 1 / 2) ^ 6"
  have c0: "0 < c" and c1: "c < 1"
    unfolding c_def by (simp_all add: power_divide)
  have c16: "0 < c ^ 16" "c ^ 16 < 1"
    using c0 c1 by (simp_all add: power_less_one_iff)
  have "poly_p (Fin (- 1 / 2)) = Fin (2 * (1 / (2 * c ^ 16)))"
    using c16(1) unfolding poly_p_def a1_def a2_def a3_def a4_def a5_def a6_def c_def
    by (simp add: Math_pow_def)
  moreover have "1 < 2 * (1 / (2 * c ^ 16))"
    using c16 by (simp add: field_simps)
  ultimately show ?thesis by blast
qed

lemma anova_above_one:
  "\<exists>r. anova (Groups [Sample [Number (Fin 1), Number (Fin 2), Number (Fin 3), Number (Fin 4)],
                        Sample [Number (Fin 1), Number (Fin 2), Number (Fin 3), Number (Fin 4)]])
          = Number (Fin r) \<and> 1 < r"
proof -
  have "anova (Groups [Sample [Number (Fin 1), Number (Fin 2), Number (Fin 3), Number (Fin 4)],
                        Sample [Number (Fin 1), Number (Fin 2), Number (Fin 3), Number (Fin 4)]])
          = Number (poly_p (Fin (- 1 / 2)))"
    by (simp add: anova_defs coercion_defs power_divide)
  then show ?thesis using poly_p_minus_half by simp
qed

section \<open>The sort of \<open>quantile\<close>\<close>

lemma makeNumeric_sortable: "sortable (makeNumeric v)"
  using makeNumeric_cases[of v] by (auto simp: sortable_def)

lemma a_minus_b_positive:
  "sortable a \<Longrightarrow> sortable b \<Longrightarrow>
     num_less (Fin 0) (a_minus_b a b) = num_less (ToNumber b) (ToNumber a)"
  by (cases "ToNumber a"; cases "ToNumber b")
     (simp_all add: a_minus_b_def num_sub_def sortable_def)

lemma num_le_total:
  "a \<noteq> NaN \<Longrightarrow> b \<noteq> NaN \<Longrightarrow> \<not> num_less b a \<Longrightarrow> num_le a b"
  by (cases a; cases b) (auto simp: num_le_def)

lemma num_less_le: "num_less a b \<Longrightarrow> num_le a b"
  by (cases a; cases b) (simp_all add: num_le_def)

lemma ascending_Cons:
  "ascending (b # bs) =
     ((bs = [] \<or> num_le (ToNumber b) (ToNumber (hd bs))) \<and> ascending bs)"
  by (cases bs) simp_all

lemma insert_by_head:
  "insert_by f a bs \<noteq> [] \<and> (hd (insert_by f a bs) = a \<or> (bs \<noteq> [] \<and> hd (insert_by f a bs) = hd bs))"
  by (cases bs) simp_all

lemma set_insert_by: "set (insert_by f a bs) = insert a (set bs)"
  by (induction bs) auto

lemma length_insert_by: "length (insert_by f a bs) = Suc (length bs)"
  by (induction bs) simp_all

lemma ascending_insert_by:
  assumes "ascending bs" and "sortable a" and "list_all sortable bs"
  shows "ascending (insert_by a_minus_b a bs)"
  using assms
proof (induction bs)
  case Nil
  then show ?case by simp
next
  case (Cons b bs)
  have sb: "sortable b" and sbs: "list_all sortable bs" using Cons.prems(3) by simp_all
  have asc: "ascending bs" using Cons.prems(1) by (simp add: ascending_Cons)
  show ?case
  proof (cases "num_less (ToNumber b) (ToNumber a)")
    case True
    have ih: "ascending (insert_by a_minus_b a bs)"
      using Cons.IH asc Cons.prems(2) sbs by simp
    have ba: "num_le (ToNumber b) (ToNumber a)" using True by (rule num_less_le)
    have "ascending (b # insert_by a_minus_b a bs)"
      using insert_by_head[of a_minus_b a bs] ih ba Cons.prems(1)
      by (auto simp: ascending_Cons)
    then show ?thesis using True a_minus_b_positive[OF Cons.prems(2) sb] by simp
  next
    case False
    have "num_le (ToNumber a) (ToNumber b)"
      using False Cons.prems(2) sb by (intro num_le_total) (simp_all add: sortable_def)
    then show ?thesis
      using False a_minus_b_positive[OF Cons.prems(2) sb] Cons.prems(1) by simp
  qed
qed

lemma isort_sortable:
  "list_all sortable xs \<Longrightarrow>
     ascending (foldr (insert_by a_minus_b) xs []) \<and>
     set (foldr (insert_by a_minus_b) xs []) = set xs \<and>
     length (foldr (insert_by a_minus_b) xs []) = length xs"
proof (induction xs)
  case Nil
  then show ?case by simp
next
  case (Cons x xs)
  then have ih: "ascending (foldr (insert_by a_minus_b) xs [])"
      "set (foldr (insert_by a_minus_b) xs []) = set xs"
      "length (foldr (insert_by a_minus_b) xs []) = length xs"
    by simp_all
  have "list_all sortable (foldr (insert_by a_minus_b) xs [])"
    using Cons.prems ih(2) by (simp add: list_all_iff)
  then show ?case
    using ih Cons.prems by (simp add: ascending_insert_by set_insert_by length_insert_by)
qed

lemma js_sort_sortable:
  assumes "list_all sortable xs"
  shows "js_sort a_minus_b xs = foldr (insert_by a_minus_b) xs []"
proof -
  have "filter (\<lambda>v. v \<noteq> Undefined) xs = xs" "filter (\<lambda>v. v = Undefined) xs = []"
    using assms by (auto simp: list_all_iff sortable_def filter_empty_conv filter_id_conv)
  then show ?thesis by (simp add: js_sort_def)
qed

lemma sorted_copy:
  "ascending (js_sort a_minus_b (map makeNumeric x))"
  "set (js_sort a_minus_b (map makeNumeric x)) = makeNumeric ` set x"
  "length (js_sort a_minus_b (map makeNumeric x)) = length x"
proof -
  have s: "list_all sortable (map makeNumeric x)"
    by (simp add: list_all_iff makeNumeric_sortable)
  show "ascending (js_sort a_minus_b (map makeNumeric x))"
    "set (js_sort a_minus_b (map makeNumeric x)) = makeNumeric ` set x"
    "length (js_sort a_minus_b (map makeNumeric x)) = length x"
    using isort_sortable[OF s] by (simp_all add: js_sort_sortable[OF s])
qed

section \<open>\<open>quantile\<close> and the caller's array\<close>

lemma quantile_st_eq:
  "quantile_st h x q =
     (quantile (h ! x) q, h @ [js_sort a_minus_b (map makeNumeric (h ! x))])"
  by (simp add: quantile_st_def array_map_def array_sort_def quantile_def Let_def)

lemma quantile_st_old_store: "take (length h) (snd (quantile_st h x q)) = h"
  by (simp add: quantile_st_eq)

lemma quantile_st_length: "length (snd (quantile_st h x q)) = Suc (length h)"
  by (simp add: quantile_st_eq)

lemma summary_st_old_store: "take (length h) (snd (summary_st h x b)) = h"
proof -
  have 1: "take (length h) (snd (quantile_st h x q)) = h" for q
    by (rule quantile_st_old_store)
  show ?thesis
    by (simp add: summary_st_def median_st_def quantile_st_eq Let_def split: prod.splits)
qed

text \<open>
  C2 (amended). \<open>quantile(x, q)\<close>, and so \<open>median(x)\<close> and \<open>summary(x, addQuantile)\<close>, leave
  the caller's array as it was: \<open>x.map(makeNumeric)\<close> returns a new array, and it is
  this new array that \<open>sort\<close> puts in ascending numeric order in place. The result is
  computed from the sorted copy.
\<close>

theorem quantile_leaves_callers_array:
  "x < length h \<Longrightarrow>
     snd (quantile_st h x q) ! x = h ! x
     \<and> snd (median_st h x) ! x = h ! x
     \<and> snd (summary_st h x addQuantile) ! x = h ! x
     \<and> quantile_st h x q
         = (quantile (h ! x) q, h @ [js_sort a_minus_b (map makeNumeric (h ! x))])
     \<and> ascending (js_sort a_minus_b (map makeNumeric (h ! x)))"
proof -
  assume x: "x < length h"
  have keep: "ys ! x = h ! x" if "take (length h) ys = h" for ys
    using nth_take[OF x, of ys] that by simp
  have "snd (quantile_st h x q) ! x = h ! x"
    by (rule keep) (rule quantile_st_old_store)
  moreover have "snd (median_st h x) ! x = h ! x"
    unfolding median_st_def by (rule keep) (rule quantile_st_old_store)
  moreover have "snd (summary_st h x addQuantile) ! x = h ! x"
    by (rule keep) (rule summary_st_old_store)
  ultimately show ?thesis
    using quantile_st_eq sorted_copy(1) by simp
qed

theorem quantile_leaves_callers_array_witness:
  "(0::nat) < length [[Number (Fin 3), Number (Fin 1), Number (Fin 2)]]
   \<and> snd (quantile_st [[Number (Fin 3), Number (Fin 1), Number (Fin 2)]] 0 (Fin (1 / 2))) ! 0
       = [Number (Fin 3), Number (Fin 1), Number (Fin 2)]
   \<and> snd (summary_st [[Number (Fin 3), Number (Fin 1), Number (Fin 2)]] 0 True) ! 0
       = [Number (Fin 3), Number (Fin 1), Number (Fin 2)]"
  using quantile_leaves_callers_array
    [of 0 "[[Number (Fin 3), Number (Fin 1), Number (Fin 2)]]" "Fin (1 / 2)" True]
  by simp

theorem quantile_does_not_sort_callers_array_counterexample:
  "snd (quantile_st [[Number (Fin 3), Number (Fin 1), Number (Fin 2)]] 0 (Fin (1 / 2))) ! 0
     = [Number (Fin 3), Number (Fin 1), Number (Fin 2)]
   \<and> \<not> ascending [Number (Fin 3), Number (Fin 1), Number (Fin 2)]"
  by (simp add: quantile_st_def array_map_def array_sort_def num_le_def)

section \<open>\<open>quantile\<close> at the last element\<close>

text \<open>What \<open>quantile\<close> returns for a non-empty array and \<open>0 \<le> q \<le> 1\<close>: the
  interpolation when the entry after \<open>base\<close> exists, and \<open>NaN\<close> when \<open>base\<close> is the last index.\<close>

lemma js_index_nat:
  "js_index s (Fin (real k)) = (if k < length s then s ! k else Undefined)"
  by (simp add: js_index_def)

lemma quantile_interpolation:
  assumes "x \<noteq> []" and "0 \<le> r" and "r \<le> 1"
  shows "quantile x (Fin r) =
     (let s = js_sort a_minus_b (map makeNumeric x);
          position = (real (length x) - 1) * r;
          base = nat \<lfloor>position\<rfloor>
      in if base + 1 < length x
         then Number (num_add (ToNumber (s ! base))
                (num_mul (Fin (position - real base))
                   (num_sub (ToNumber (s ! (base + 1))) (ToNumber (s ! base)))))
         else Number NaN)"
proof -
  define s where "s = js_sort a_minus_b (map makeNumeric x)"
  define pos where "pos = (real (length x) - 1) * r"
  define b where "b = nat \<lfloor>pos\<rfloor>"
  have len: "length s = length x" and els: "set s = makeNumeric ` set x"
    unfolding s_def by (rule sorted_copy)+
  have n1: "1 \<le> real (length x)" using assms(1) by (simp add: Suc_le_eq)
  have pos0: "0 \<le> pos" unfolding pos_def using n1 assms(2) by simp
  have pos1: "pos \<le> real (length x) - 1"
    unfolding pos_def using n1 assms(3) by (simp add: mult_left_le)
  have fl0: "0 \<le> \<lfloor>pos\<rfloor>" using pos0 by simp
  have flb: "of_int \<lfloor>pos\<rfloor> = real b" unfolding b_def using fl0 by simp
  have "real b \<le> pos" using flb of_int_floor_le[of pos] by simp
  then have "real b \<le> real (length x) - 1" using pos1 by simp
  then have "real b < real (length x)" by linarith
  then have blt: "b < length s" using len by simp
  have "s ! b \<in> set s" using blt by simp
  then have "sortable (s ! b)" using els makeNumeric_sortable by auto
  then have defd: "s ! b \<noteq> Undefined" by (simp add: sortable_def)
  have base: "Math_floor (num_mul (Fin (real (length s) - 1)) (Fin r)) = Fin (real b)"
    using flb by (simp add: len pos_def)
  have next_ix: "num_add (Fin (real b)) (Fin 1) = Fin (real (b + 1))" by simp
  have rest: "num_sub (num_mul (Fin (real (length s) - 1)) (Fin r)) (Fin (real b))
                = Fin (pos - real b)"
    by (simp add: num_sub_def len pos_def)
  have "quantile_sorted s (Fin r) =
     (if b + 1 < length x
         then Number (num_add (ToNumber (s ! b))
                (num_mul (Fin (pos - real b))
                   (num_sub (ToNumber (s ! (b + 1))) (ToNumber (s ! b)))))
         else Number NaN)"
    unfolding quantile_sorted_def Let_def base next_ix rest js_index_nat
    using blt defd assms(1) len by simp
  then show ?thesis
    by (simp add: quantile_def Let_def s_def pos_def b_def)
qed

lemma quantile_at_one:
  assumes "x \<noteq> []"
  shows "quantile x (Fin 1) = Number NaN"
proof -
  define s where "s = js_sort a_minus_b (map makeNumeric x)"
  have len: "length s = length x" and els: "set s = makeNumeric ` set x"
    unfolding s_def by (rule sorted_copy)+
  have pos: "0 < length s" using assms len by simp
  have fl: "\<lfloor>real (length s) - 1\<rfloor> = int (length s) - 1"
    by linarith
  have last_in: "s ! (length s - 1) \<in> set s" using pos by simp
  then have "sortable (s ! (length s - 1))"
    using els makeNumeric_sortable by auto
  then have defd: "s ! (length s - 1) \<noteq> Undefined" by (simp add: sortable_def)
  have nat1: "nat (int (length s) - 1) = length s - 1" by simp
  have one: "Suc 0 \<le> length s" using pos by (simp add: Suc_le_eq)
  have ix: "js_index s (Fin (real (length s) - 1)) = s ! (length s - 1)"
    using pos one by (simp add: js_index_def fl nat1)
  have ix1: "js_index s (Fin (real (length s))) = Undefined"
    by (simp add: js_index_def)
  have "quantile_sorted s (Fin 1) = Number NaN"
    using pos defd by (simp add: quantile_sorted_def Let_def fl ix ix1 num_sub_def)
  then show ?thesis by (simp add: quantile_def s_def Let_def)
qed

text \<open>
  C1. The guard of the interpolation reads \<open>x[base] !== undefined\<close>, not
  \<open>x[base + 1] !== undefined\<close>: when \<open>base\<close> is the last index, \<open>x[base + 1]\<close> is
  \<open>undefined\<close> and the interpolation is \<open>NaN\<close>. So \<open>quantile([1,2,3], 1)\<close> is \<open>NaN\<close>, not
  the maximum 3, and the median of a one-element array is \<open>NaN\<close>; away from the last
  index \<open>quantile([1,2,3,4], 0.5)\<close> is 2.5, and \<open>quantile([], q)\<close> is 0.
\<close>

theorem quantile_at_one_is_NaN:
  "quantile [Number (Fin 1), Number (Fin 2), Number (Fin 3)] (Fin 1) = Number NaN
   \<and> quantile [Number (Fin 5)] (Fin (1 / 2)) = Number NaN
   \<and> quantile [Number (Fin 1), Number (Fin 2), Number (Fin 3), Number (Fin 4)] (Fin (1 / 2))
       = Number (Fin (5 / 2))
   \<and> quantile [] q = Number (Fin 0)"
  by (simp add: quantile_defs coercion_defs)

end
